theory Spec2Isabelle
  imports Main "HOL-Library.Sublist"
begin

section \<open>Ranking issues: the data model of \<^verbatim>\<open>pkg/jira/issue.go\<close>\<close>

text \<open>
  The request body of the rank operation (\<^verbatim>\<open>IssueRankPayload\<close>).  A Go slice is either
  \<^verbatim>\<open>nil\<close> or a sequence, so \<^verbatim>\<open>Issues\<close> is an optional list (\<open>None\<close> is the nil slice);
  a Go string is a sequence of bytes, as \<open>string\<close> is here.
\<close>

record IssueRankPayload =
  Issues :: "string list option"
  RankBeforeIssue :: string
  RankAfterIssue :: string

text \<open>Go's \<^verbatim>\<open>len\<close> on a slice: the nil slice has length 0.\<close>

fun len :: "'a list option \<Rightarrow> nat" where
  "len None = 0"
| "len (Some xs) = length xs"

text \<open>
  Modelled from the spec: the error values \<^verbatim>\<open>ErrEmptyResponse\<close> and
  \<^verbatim>\<open>ErrUnexpectedResponse\<close>, which \<^verbatim>\<open>client.go\<close> declares; that file is not among the
  sources this development covers.  \<open>ErrEmptyResponse\<close> is the sentinel for a transport that
  returned neither a response nor an error, \<open>ErrUnexpectedResponse m\<close> the
  unexpected-response failure with its message \<open>m\<close>; the taxonomy of the specification (7)
  keeps the two apart.

  The other two errors are made in \<^verbatim>\<open>RankIssues\<close> itself: \<open>Errorf m\<close> is \<^verbatim>\<open>fmt.Errorf\<close>
  with the finished message \<open>m\<close>, and \<open>Wrapf m e\<close> is \<^verbatim>\<open>fmt.Errorf(m + "%w", e)\<close>, which
  wraps the error \<open>e\<close>.
\<close>

datatype error =
    Errorf string
  | Wrapf string error
  | ErrEmptyResponse
  | ErrUnexpectedResponse string

text \<open>
  What \<^verbatim>\<open>RankIssues\<close> hands to \<^verbatim>\<open>c.PutV1\<close>: the path, the body and the headers (a Go
  map, here the list of its entries); the context is \<^verbatim>\<open>context.Background()\<close>.  Of
  \<^verbatim>\<open>*http.Response\<close> the fields that are read: \<^verbatim>\<open>StatusCode\<close>, the number, and
  \<^verbatim>\<open>Status\<close>, the status line as it was received (\<^verbatim>\<open>"204 No Content"\<close>), which is a
  field of its own; and the body.  Closing the body (the deferred call) has no part in
  the result.
\<close>

record request =
  path :: string
  body :: string
  header :: "(string \<times> string) list"

record response =
  StatusCode :: int
  Status :: string
  Body :: string

section \<open>\<^verbatim>\<open>json.Marshal\<close> on an \<^verbatim>\<open>IssueRankPayload\<close>\<close>

text \<open>
  Go's \<^verbatim>\<open>encoding/json\<close> writes a string between double quotes.  Below \<^verbatim>\<open>0x80\<close> a byte
  is copied when it is in \<^verbatim>\<open>htmlSafeSet\<close> (printable, and none of \<^verbatim>\<open>" & < > \\<close>) and
  escaped otherwise; from \<^verbatim>\<open>0x80\<close> on the bytes are decoded as UTF-8, an invalid byte
  becomes the escape of U+FFFD, U+2028 and U+2029 are escaped and every other rune is
  copied.  The short escapes for backspace and form feed are those of Go 1.22 and later.
\<close>

definition hex :: string where
  "hex = ''0123456789abcdef''"

definition htmlSafeSet :: "char \<Rightarrow> bool" where
  "htmlSafeSet b \<longleftrightarrow>
     (0x20::nat) \<le> of_char b \<and> of_char b < (0x80::nat) \<and>
     b \<noteq> CHR 0x22 \<and> b \<noteq> CHR ''&'' \<and> b \<noteq> CHR ''<'' \<and> b \<noteq> CHR ''>'' \<and> b \<noteq> CHR 0x5C"

text \<open>The escape of a byte below \<^verbatim>\<open>0x80\<close> that is not in \<^verbatim>\<open>htmlSafeSet\<close>.\<close>

definition escapeByte :: "char \<Rightarrow> string" where
  "escapeByte b =
     (if b = CHR 0x5C \<or> b = CHR 0x22 then [CHR 0x5C, b]
      else if b = CHR 0x08 then [CHR 0x5C, CHR ''b'']
      else if b = CHR 0x0C then [CHR 0x5C, CHR ''f'']
      else if b = CHR 0x0A then [CHR 0x5C, CHR ''n'']
      else if b = CHR 0x0D then [CHR 0x5C, CHR ''r'']
      else if b = CHR 0x09 then [CHR 0x5C, CHR ''t'']
      else [CHR 0x5C, CHR ''u'', CHR ''0'', CHR ''0'',
            hex ! (of_char b div 16), hex ! (of_char b mod 16)])"

text \<open>
  \<^verbatim>\<open>utf8.DecodeRuneInString\<close> on the byte values: the rune and its width.  The table
  \<^verbatim>\<open>first\<close> with \<^verbatim>\<open>acceptRanges\<close> gives, for a leading byte, the width of the
  encoding and the range allowed for the second byte.
\<close>

definition RuneError :: nat where
  "RuneError = 0xFFFD"

definition acceptRange :: "nat \<Rightarrow> (nat \<times> nat \<times> nat) option" where
  "acceptRange s0 =
     (if 0xC2 \<le> s0 \<and> s0 \<le> 0xDF then Some (2, 0x80, 0xBF)
      else if s0 = 0xE0 then Some (3, 0xA0, 0xBF)
      else if 0xE1 \<le> s0 \<and> s0 \<le> 0xEC then Some (3, 0x80, 0xBF)
      else if s0 = 0xED then Some (3, 0x80, 0x9F)
      else if 0xEE \<le> s0 \<and> s0 \<le> 0xEF then Some (3, 0x80, 0xBF)
      else if s0 = 0xF0 then Some (4, 0x90, 0xBF)
      else if 0xF1 \<le> s0 \<and> s0 \<le> 0xF3 then Some (4, 0x80, 0xBF)
      else if s0 = 0xF4 then Some (4, 0x80, 0x8F)
      else None)"

fun DecodeRune :: "nat list \<Rightarrow> nat \<times> nat" where
  "DecodeRune [] = (RuneError, 0)"
| "DecodeRune (s0 # ss) =
     (if s0 < 0x80 then (s0, 1)
      else case acceptRange s0 of
        None \<Rightarrow> (RuneError, 1)
      | Some (sz, lo, hi) \<Rightarrow>
          (case ss of
             [] \<Rightarrow> (RuneError, 1)
           | s1 # ss1 \<Rightarrow>
               if Suc (length ss) < sz then (RuneError, 1)
               else if s1 < lo \<or> hi < s1 then (RuneError, 1)
               else if sz \<le> 2 then ((s0 mod 32) * 64 + s1 mod 64, 2)
               else (case ss1 of
                  [] \<Rightarrow> (RuneError, 1)
                | s2 # ss2 \<Rightarrow>
                    if s2 < 0x80 \<or> 0xBF < s2 then (RuneError, 1)
                    else if sz \<le> 3
                      then ((s0 mod 16) * 4096 + (s1 mod 64) * 64 + s2 mod 64, 3)
                    else (case ss2 of
                       [] \<Rightarrow> (RuneError, 1)
                     | s3 # ss3 \<Rightarrow>
                         if s3 < 0x80 \<or> 0xBF < s3 then (RuneError, 1)
                         else ((s0 mod 8) * 262144 + (s1 mod 64) * 4096
                               + (s2 mod 64) * 64 + s3 mod 64, 4)))))"

definition DecodeRuneInString :: "string \<Rightarrow> nat \<times> nat" where
  "DecodeRuneInString s = DecodeRune (map of_char s)"

text \<open>
  The loop of \<^verbatim>\<open>appendString\<close> (with \<^verbatim>\<open>escapeHTML\<close> on, as \<^verbatim>\<open>json.Marshal\<close> has it):
  it looks at no more than \<^verbatim>\<open>utf8.UTFMax = 4\<close> bytes for one rune.
\<close>

function appendString_loop :: "string \<Rightarrow> string" where
  "appendString_loop [] = []"
| "appendString_loop (b # bs) =
     (if of_char b < (0x80::nat) then
        (if htmlSafeSet b then [b] else escapeByte b) @ appendString_loop bs
      else
        (let r = DecodeRuneInString (take 4 (b # bs)); c = fst r; size = snd r in
         if c = RuneError \<and> size = 1 then
           (CHR 0x5C # ''ufffd'') @ appendString_loop bs
         else if c = 0x2028 \<or> c = 0x2029 then
           (CHR 0x5C # ''u202'') @ [hex ! (c mod 16)] @ appendString_loop (drop size (b # bs))
         else take size (b # bs) @ appendString_loop (drop size (b # bs))))"
  by pat_completeness auto
termination
proof -
  have width: "0 < snd (DecodeRuneInString (b # bs))" for b bs
    by (auto simp: DecodeRuneInString_def split: option.splits list.splits prod.splits)
  show ?thesis
    by (relation "measure length") (auto simp: width)
qed

definition appendString :: "string \<Rightarrow> string" where
  "appendString s = [CHR 0x22] @ appendString_loop s @ [CHR 0x22]"

text \<open>Elements joined by a separator, as the encoder writes array items and fields.\<close>

fun Join :: "string list \<Rightarrow> string \<Rightarrow> string" where
  "Join [] sep = []"
| "Join [x] sep = x"
| "Join (x # y # ys) sep = x @ sep @ Join (y # ys) sep"

text \<open>A \<^verbatim>\<open>[]string\<close>: \<^verbatim>\<open>null\<close> for the nil slice, a JSON array otherwise.\<close>

fun encodeSlice :: "string list option \<Rightarrow> string" where
  "encodeSlice None = ''null''"
| "encodeSlice (Some xs) = ''['' @ Join (map appendString xs) '','' @ '']''"

text \<open>
  The fields the struct encoder emits, in declaration order, each with its encoded value:
  \<^verbatim>\<open>issues\<close> always, \<^verbatim>\<open>rankBeforeIssue\<close> and \<^verbatim>\<open>rankAfterIssue\<close> under \<^verbatim>\<open>omitempty\<close>,
  which drops a string of length 0.
\<close>

definition marshalFields :: "IssueRankPayload \<Rightarrow> (string \<times> string) list" where
  "marshalFields p =
     [(''issues'', encodeSlice (Issues p))]
     @ (if length (RankBeforeIssue p) = 0 then []
        else [(''rankBeforeIssue'', appendString (RankBeforeIssue p))])
     @ (if length (RankAfterIssue p) = 0 then []
        else [(''rankAfterIssue'', appendString (RankAfterIssue p))])"

definition encodeField :: "string \<times> string \<Rightarrow> string" where
  "encodeField kv = [CHR 0x22] @ fst kv @ [CHR 0x22] @ '':'' @ snd kv"

text \<open>
  \<^verbatim>\<open>json.Marshal(payload)\<close>.  It has an error result, which a struct of strings and a
  string slice never produces.
\<close>

definition json_Marshal :: "IssueRankPayload \<Rightarrow> error + string" where
  "json_Marshal p = Inr (''{'' @ Join (map encodeField (marshalFields p)) '','' @ ''}'')"

section \<open>\<^verbatim>\<open>RankIssues\<close>\<close>

text \<open>
  \<^verbatim>\<open>func (c *Client) RankIssues(payload IssueRankPayload) error\<close>.

  \<^verbatim>\<open>c.PutV1\<close> (the HTTP transport) and \<^verbatim>\<open>formatUnexpectedResponse\<close> live in
  \<^verbatim>\<open>client.go\<close>, which is not among the sources this development covers; both are
  parameters here.  \<open>PutV1\<close> maps the request to Go's pair \<^verbatim>\<open>(res, err)\<close>, \<open>None\<close>
  being \<^verbatim>\<open>nil\<close>; \<open>formatUnexpectedResponse\<close> gives the message of the
  unexpected-response failure it builds from a response.  The result is the returned
  error (\<open>None\<close> is \<^verbatim>\<open>nil\<close>) and the requests that were handed to \<open>PutV1\<close>, in order:
  the empty list when the transport was not called.
\<close>

definition RankIssues ::
  "(request \<Rightarrow> response option \<times> error option) \<Rightarrow> (response \<Rightarrow> string) \<Rightarrow>
     IssueRankPayload \<Rightarrow> error option \<times> request list" where
  "RankIssues PutV1 formatUnexpectedResponse payload =
     (if len (Issues payload) = 0 then
        (Some (Errorf ''no issues provided to rank''), [])
      else if RankBeforeIssue payload = '''' \<and> RankAfterIssue payload = '''' then
        (Some (Errorf ''either rankBeforeIssue or rankAfterIssue must be specified''), [])
      else if RankBeforeIssue payload \<noteq> '''' \<and> RankAfterIssue payload \<noteq> '''' then
        (Some (Errorf ''rankBeforeIssue and rankAfterIssue cannot both be specified''), [])
      else
        (case json_Marshal payload of
           Inl err \<Rightarrow> (Some (Wrapf ''failed to marshal rank issues payload: '' err), [])
         | Inr b \<Rightarrow>
             (let req = \<lparr>path = ''/issue/rank'', body = b,
                         header = [(''Accept'', ''application/json''),
                                   (''Content-Type'', ''application/json'')]\<rparr>
              in case PutV1 req of
                   (res, Some err) \<Rightarrow>
                     (Some (Wrapf ''failed to call rank issues API: '' err), [req])
                 | (None, None) \<Rightarrow> (Some ErrEmptyResponse, [req])
                 | (Some res, None) \<Rightarrow>
                     (if StatusCode res = 204 then (None, [req])
                      else if StatusCode res = 207 then
                        (Some (Errorf (''rank issues operation resulted in multi-status (some may have failed): ''
                                       @ Status res)), [req])
                      else (Some (ErrUnexpectedResponse (formatUnexpectedResponse res)),
                            [req])))))"

text \<open>The request \<^verbatim>\<open>RankIssues\<close> sends for an encoded body \<open>b\<close>.\<close>

abbreviation rankRequest :: "string \<Rightarrow> request" where
  "rankRequest b \<equiv>
     \<lparr>path = ''/issue/rank'', body = b,
      header = [(''Accept'', ''application/json''), (''Content-Type'', ''application/json'')]\<rparr>"

text \<open>\<^verbatim>\<open>strings.Contains(s, substr)\<close>, as the tests use it on error messages.\<close>

definition Contains :: "string \<Rightarrow> string \<Rightarrow> bool" where
  "Contains s substr \<longleftrightarrow> sublist substr s"

text \<open>
  Transports for concrete runs, in the way the tests set up a server: one that answers
  every request with the response \<open>res\<close>, and one that returns \<^verbatim>\<open>(nil, nil)\<close>.
\<close>

definition respond :: "response \<Rightarrow> request \<Rightarrow> response option \<times> error option" where
  "respond res req = (Some res, None)"

definition noResponse :: "request \<Rightarrow> response option \<times> error option" where
  "noResponse req = (None, None)"

section \<open>The unexpected-response failure\<close>

text \<open>
  Modelled from the spec: the decoding of an error body, which \<^verbatim>\<open>formatUnexpectedResponse\<close>
  of \<^verbatim>\<open>client.go\<close> does.  The structured error body of the service is
  \<^verbatim>\<open>{errorMessages: [string], errors: {field: string}}\<close> (6).  In the decoder for it the
  body is cut into tokens, then read as one object whose members are a list of messages
  under \<^verbatim>\<open>errorMessages\<close> and a map of strings under \<^verbatim>\<open>errors\<close>.  Anything else is
  unparseable.
\<close>

record Errors =
  errorMessages :: "string list"
  errors :: "(string \<times> string) list"

datatype token = LBrace | RBrace | LBrack | RBrack | Colon | Comma | Str string

definition punct :: "char \<Rightarrow> token option" where
  "punct c =
     (if c = CHR ''{'' then Some LBrace else if c = CHR ''}'' then Some RBrace
      else if c = CHR ''['' then Some LBrack else if c = CHR '']'' then Some RBrack
      else if c = CHR '':'' then Some Colon else if c = CHR '','' then Some Comma
      else None)"

text \<open>
  The first argument is the string literal being read, if any.  Escapes are not
  interpreted: a backslash makes the body unparseable.
\<close>

fun tokens :: "string option \<Rightarrow> string \<Rightarrow> token list option" where
  "tokens None [] = Some []"
| "tokens (Some acc) [] = None"
| "tokens None (c # cs) =
     (if c = CHR 0x22 then tokens (Some []) cs
      else if c = CHR '' '' \<or> c = CHR 0x09 \<or> c = CHR 0x0A \<or> c = CHR 0x0D then tokens None cs
      else case punct c of
             None \<Rightarrow> None
           | Some t \<Rightarrow> map_option ((#) t) (tokens None cs))"
| "tokens (Some acc) (c # cs) =
     (if c = CHR 0x22 then map_option ((#) (Str acc)) (tokens None cs)
      else if c = CHR 0x5C then None
      else tokens (Some (acc @ [c])) cs)"

fun members :: "Errors \<Rightarrow> token list \<Rightarrow> Errors option"
  and messages :: "Errors \<Rightarrow> token list \<Rightarrow> Errors option"
  and fields :: "Errors \<Rightarrow> token list \<Rightarrow> Errors option"
  and afterValue :: "Errors \<Rightarrow> token list \<Rightarrow> Errors option" where
  "members e ts =
     (case ts of
        Str k # Colon # LBrack # RBrack # r \<Rightarrow>
          if k = ''errorMessages'' then afterValue e r else None
      | Str k # Colon # LBrack # r \<Rightarrow>
          if k = ''errorMessages'' then messages e r else None
      | Str k # Colon # LBrace # RBrace # r \<Rightarrow>
          if k = ''errors'' then afterValue e r else None
      | Str k # Colon # LBrace # r \<Rightarrow>
          if k = ''errors'' then fields e r else None
      | _ \<Rightarrow> None)"
| "messages e ts =
     (case ts of
        Str m # Comma # r \<Rightarrow> messages (e\<lparr>errorMessages := errorMessages e @ [m]\<rparr>) r
      | Str m # RBrack # r \<Rightarrow> afterValue (e\<lparr>errorMessages := errorMessages e @ [m]\<rparr>) r
      | _ \<Rightarrow> None)"
| "fields e ts =
     (case ts of
        Str k # Colon # Str v # Comma # r \<Rightarrow> fields (e\<lparr>errors := errors e @ [(k, v)]\<rparr>) r
      | Str k # Colon # Str v # RBrace # r \<Rightarrow> afterValue (e\<lparr>errors := errors e @ [(k, v)]\<rparr>) r
      | _ \<Rightarrow> None)"
| "afterValue e ts =
     (case ts of
        [RBrace] \<Rightarrow> Some e
      | Comma # r \<Rightarrow> members e r
      | _ \<Rightarrow> None)"

definition decodeErrors :: "string \<Rightarrow> Errors option" where
  "decodeErrors b =
     (case tokens None b of
        None \<Rightarrow> None
      | Some ts \<Rightarrow>
          (case ts of
             [LBrace, RBrace] \<Rightarrow> Some \<lparr>errorMessages = [], errors = []\<rparr>
           | LBrace # r \<Rightarrow> members \<lparr>errorMessages = [], errors = []\<rparr> r
           | _ \<Rightarrow> None))"

text \<open>
  Modelled from the spec: \<^verbatim>\<open>formatUnexpectedResponse\<close> of \<^verbatim>\<open>client.go\<close>, which is not
  among the sources this development covers.  The spec (4.2, 6) has the message embed the status line and
  the error fields parsed from the body, the list of messages and the map of field errors,
  and fall back to a generic \<^verbatim>\<open>unexpected response\<close> message with the status line when
  the body is empty or unparseable; for an empty body the tests expect
  \<^verbatim>\<open>unexpected response: 200 OK with empty body\<close>.
\<close>

definition spec_formatUnexpectedResponse :: "response \<Rightarrow> string" where
  "spec_formatUnexpectedResponse res =
     (if Body res = '''' then ''unexpected response: '' @ Status res @ '' with empty body''
      else case decodeErrors (Body res) of
             None \<Rightarrow> ''unexpected response: '' @ Status res
           | Some e \<Rightarrow>
               ''unexpected response: '' @ Status res
               @ concat (map (\<lambda>m. ''; '' @ m) (errorMessages e))
               @ concat (map (\<lambda>kv. ''; '' @ fst kv @ '': '' @ snd kv) (errors e)))"

section \<open>The rank instruction of the specification\<close>

text \<open>
  The specification (3, 4.1, 6) speaks of a rank instruction with three reference modes:
  before an issue, after an issue, or first, the last one a separate boolean of the
  caller-facing instruction.  \<^verbatim>\<open>IssueRankPayload\<close> has the fields for the first two
  only, so the payload of an instruction carries its issues and its before and after
  references, and nothing for the flag.
\<close>

record RankInstruction =
  target_issues :: "string list"
  rank_before :: string
  rank_after :: string
  rank_first :: bool

definition modesSet :: "RankInstruction \<Rightarrow> nat" where
  "modesSet i =
     (if rank_before i \<noteq> '''' then 1 else 0) + (if rank_after i \<noteq> '''' then 1 else 0)
     + (if rank_first i then 1 else 0)"

definition payloadOf :: "RankInstruction \<Rightarrow> IssueRankPayload" where
  "payloadOf i =
     \<lparr>Issues = Some (target_issues i), RankBeforeIssue = rank_before i,
      RankAfterIssue = rank_after i\<rparr>"

section \<open>How \<^verbatim>\<open>RankIssues\<close> runs\<close>

text \<open>
  A payload passes the three guards when it has issues and exactly one of its two
  references is the empty string, which is written
  \<open>(RankBeforeIssue p = []) \<noteq> (RankAfterIssue p = [])\<close> below.  Then the payload is
  encoded, one request is handed to the transport, and the result follows from what the
  transport returns.
\<close>

lemma json_Marshal_Inr:
  "json_Marshal p = Inr (''{'' @ Join (map encodeField (marshalFields p)) '','' @ ''}'')"
  by (simp add: json_Marshal_def)

lemma RankIssues_no_issues:
  "len (Issues p) = 0 \<Longrightarrow>
     RankIssues transport f p = (Some (Errorf ''no issues provided to rank''), [])"
  by (simp add: RankIssues_def)

lemma RankIssues_no_reference:
  "0 < len (Issues p) \<Longrightarrow> RankBeforeIssue p = '''' \<Longrightarrow> RankAfterIssue p = '''' \<Longrightarrow>
     RankIssues transport f p =
       (Some (Errorf ''either rankBeforeIssue or rankAfterIssue must be specified''), [])"
  by (simp add: RankIssues_def)

lemma RankIssues_both_references:
  "0 < len (Issues p) \<Longrightarrow> RankBeforeIssue p \<noteq> '''' \<Longrightarrow> RankAfterIssue p \<noteq> '''' \<Longrightarrow>
     RankIssues transport f p =
       (Some (Errorf ''rankBeforeIssue and rankAfterIssue cannot both be specified''), [])"
  by (simp add: RankIssues_def)

lemma RankIssues_sends:
  assumes "0 < len (Issues p)" and "(RankBeforeIssue p = '''') \<noteq> (RankAfterIssue p = '''')"
    and "json_Marshal p = Inr b"
  shows "RankIssues transport f p =
     (case transport (rankRequest b) of
        (res, Some err) \<Rightarrow> (Some (Wrapf ''failed to call rank issues API: '' err), [rankRequest b])
      | (None, None) \<Rightarrow> (Some ErrEmptyResponse, [rankRequest b])
      | (Some res, None) \<Rightarrow>
          (if StatusCode res = 204 then (None, [rankRequest b])
           else if StatusCode res = 207 then
             (Some (Errorf (''rank issues operation resulted in multi-status (some may have failed): ''
                            @ Status res)), [rankRequest b])
           else (Some (ErrUnexpectedResponse (f res)), [rankRequest b])))"
  using assms by (auto simp: RankIssues_def Let_def)

lemma RankIssues_response:
  assumes "0 < len (Issues p)" and "(RankBeforeIssue p = '''') \<noteq> (RankAfterIssue p = '''')"
    and "\<And>req. transport req = (Some res, None)"
  shows "fst (RankIssues transport f p) =
     (if StatusCode res = 204 then None
      else if StatusCode res = 207 then
        Some (Errorf (''rank issues operation resulted in multi-status (some may have failed): ''
                      @ Status res))
      else Some (ErrUnexpectedResponse (f res)))"
  using RankIssues_sends [OF assms(1,2) json_Marshal_Inr, of transport f] assms(3)
  by simp

lemma Contains_appendI: "Contains s x \<Longrightarrow> Contains (pre @ s @ post) x"
  by (auto simp: Contains_def sublist_append)

lemma example_payload_valid:
  "0 < len (Issues \<lparr>Issues = Some [''TEST-1''], RankBeforeIssue = '''', RankAfterIssue = ''TEST-2''\<rparr>)"
  "(RankBeforeIssue \<lparr>Issues = Some [''TEST-1''], RankBeforeIssue = '''', RankAfterIssue = ''TEST-2''\<rparr> = '''')
     \<noteq> (RankAfterIssue \<lparr>Issues = Some [''TEST-1''], RankBeforeIssue = '''', RankAfterIssue = ''TEST-2''\<rparr> = '''')"
  by simp_all


lemma RankIssues_valid_outcome:
  assumes "0 < len (Issues p)" and "(RankBeforeIssue p = '''') \<noteq> (RankAfterIssue p = '''')"
    and "json_Marshal p = Inr b"
  shows "snd (RankIssues transport f p) = [rankRequest b]"
    and "fst (RankIssues transport f p) \<noteq> Some (Errorf ''no issues provided to rank'')"
    and "fst (RankIssues transport f p)
           \<noteq> Some (Errorf ''either rankBeforeIssue or rankAfterIssue must be specified'')"
    and "fst (RankIssues transport f p)
           \<noteq> Some (Errorf ''rankBeforeIssue and rankAfterIssue cannot both be specified'')"
  unfolding RankIssues_sends [OF assms, of transport f]
  by (simp_all split: prod.splits option.splits)

lemma marshalFields_before:
  "RankBeforeIssue p \<noteq> '''' \<Longrightarrow> RankAfterIssue p = '''' \<Longrightarrow>
     marshalFields p =
       [(''issues'', encodeSlice (Issues p)),
        (''rankBeforeIssue'', appendString (RankBeforeIssue p))]"
  by (simp add: marshalFields_def)

lemma marshalFields_after:
  "RankBeforeIssue p = '''' \<Longrightarrow> RankAfterIssue p \<noteq> '''' \<Longrightarrow>
     marshalFields p =
       [(''issues'', encodeSlice (Issues p)),
        (''rankAfterIssue'', appendString (RankAfterIssue p))]"
  by (simp add: marshalFields_def)

lemma json_Marshal_before:
  \<open>RankBeforeIssue p \<noteq> '''' \<Longrightarrow> RankAfterIssue p = '''' \<Longrightarrow>
     json_Marshal p =
       Inr (''{"issues":'' @ encodeSlice (Issues p)
            @ '',"rankBeforeIssue":'' @ appendString (RankBeforeIssue p) @ ''}'')\<close>
  by (simp add: json_Marshal_def marshalFields_before encodeField_def)

lemma json_Marshal_after:
  \<open>RankBeforeIssue p = '''' \<Longrightarrow> RankAfterIssue p \<noteq> '''' \<Longrightarrow>
     json_Marshal p =
       Inr (''{"issues":'' @ encodeSlice (Issues p)
            @ '',"rankAfterIssue":'' @ appendString (RankAfterIssue p) @ ''}'')\<close>
  by (simp add: json_Marshal_def marshalFields_after encodeField_def)

lemma marshalFields_keys:
  "(''rankBeforeIssue'' \<in> fst ` set (marshalFields p)) = (RankBeforeIssue p \<noteq> '''')"
  "(''rankAfterIssue'' \<in> fst ` set (marshalFields p)) = (RankAfterIssue p \<noteq> '''')"
  by (simp_all add: marshalFields_def)

lemma escapeByte_not_Nil: "escapeByte b \<noteq> []"
  by (simp add: escapeByte_def)

lemma appendString_loop_not_Nil: "appendString_loop (b # bs) \<noteq> []"
proof -
  have "0 < snd (DecodeRuneInString (b # take 3 bs))"
    by (auto simp: DecodeRuneInString_def split: option.splits list.splits prod.splits)
  then have "take (snd (DecodeRuneInString (b # take 3 bs))) (b # bs) \<noteq> []"
    by (cases "snd (DecodeRuneInString (b # take 3 bs))") simp_all
  then show ?thesis
    by (simp add: Let_def escapeByte_not_Nil)
qed

lemma appendString_empty_iff: \<open>(appendString s = ''""'') = (s = '''')\<close>
  by (cases s) (simp_all add: appendString_def appendString_loop_not_Nil
      del: appendString_loop.simps(2))

lemma encodeSlice_not_empty_string: \<open>encodeSlice xs \<noteq> ''""''\<close>
  by (cases xs) simp_all

lemma marshalFields_no_empty_string:
  \<open>kv \<in> set (marshalFields p) \<Longrightarrow> snd kv \<noteq> ''""''\<close>
  by (auto simp: marshalFields_def appendString_empty_iff encodeSlice_not_empty_string
      split: if_splits)


section \<open>Validation\<close>

text \<open>
  C9: the validation errors have a fixed precedence.  A payload with no issues (a nil or
  an empty slice) gets \<^verbatim>\<open>no issues provided to rank\<close> whatever its before and after
  references are, and no request is sent; the errors of the missing and of the conflicting
  reference are returned only for a payload that has issues.
\<close>

theorem C9_no_issues_checked_first:
  "(len (Issues p) = 0 \<longrightarrow>
      RankIssues transport f p = (Some (Errorf ''no issues provided to rank''), []))
   \<and> (fst (RankIssues transport f p)
         = Some (Errorf ''either rankBeforeIssue or rankAfterIssue must be specified'')
       \<or> fst (RankIssues transport f p)
         = Some (Errorf ''rankBeforeIssue and rankAfterIssue cannot both be specified'')
       \<longrightarrow> 0 < len (Issues p))"
proof (cases "len (Issues p) = 0")
  case True
  then show ?thesis
    by (simp add: RankIssues_no_issues)
next
  case False
  then show ?thesis
    by simp
qed

theorem C9_no_issues_checked_first_witness:
  "len (Issues \<lparr>Issues = Some [], RankBeforeIssue = ''TEST-2'', RankAfterIssue = ''TEST-3''\<rparr>) = 0
   \<and> RankIssues noResponse spec_formatUnexpectedResponse
        \<lparr>Issues = Some [], RankBeforeIssue = ''TEST-2'', RankAfterIssue = ''TEST-3''\<rparr>
      = (Some (Errorf ''no issues provided to rank''), [])
   \<and> RankIssues noResponse spec_formatUnexpectedResponse
        \<lparr>Issues = None, RankBeforeIssue = '''', RankAfterIssue = ''''\<rparr>
      = (Some (Errorf ''no issues provided to rank''), [])
   \<and> fst (RankIssues noResponse spec_formatUnexpectedResponse
        \<lparr>Issues = Some [''TEST-1''], RankBeforeIssue = '''', RankAfterIssue = ''''\<rparr>)
      = Some (Errorf ''either rankBeforeIssue or rankAfterIssue must be specified'')
   \<and> 0 < len (Issues \<lparr>Issues = Some [''TEST-1''], RankBeforeIssue = '''', RankAfterIssue = ''''\<rparr>)"
  using
    C9_no_issues_checked_first [of
      "\<lparr>Issues = Some [], RankBeforeIssue = ''TEST-2'', RankAfterIssue = ''TEST-3''\<rparr>"
      noResponse spec_formatUnexpectedResponse]
    C9_no_issues_checked_first [of
      "\<lparr>Issues = None, RankBeforeIssue = '''', RankAfterIssue = ''''\<rparr>"
      noResponse spec_formatUnexpectedResponse]
    C9_no_issues_checked_first [of
      "\<lparr>Issues = Some [''TEST-1''], RankBeforeIssue = '''', RankAfterIssue = ''''\<rparr>"
      noResponse spec_formatUnexpectedResponse]
  by (simp add: RankIssues_no_reference)

text \<open>
  C2: a payload with no issues, or with neither a before nor an after reference (the
  payload has no field for a first mode), or with both, gets one of the three validation
  errors, and \<^verbatim>\<open>PutV1\<close> is not called: no request is sent.
\<close>

theorem C2_invalid_payload_no_request:
  assumes "len (Issues p) = 0
           \<or> (RankBeforeIssue p = '''' \<and> RankAfterIssue p = '''')
           \<or> (RankBeforeIssue p \<noteq> '''' \<and> RankAfterIssue p \<noteq> '''')"
  shows "snd (RankIssues transport f p) = []
         \<and> (fst (RankIssues transport f p) = Some (Errorf ''no issues provided to rank'')
            \<or> fst (RankIssues transport f p)
              = Some (Errorf ''either rankBeforeIssue or rankAfterIssue must be specified'')
            \<or> fst (RankIssues transport f p)
              = Some (Errorf ''rankBeforeIssue and rankAfterIssue cannot both be specified''))"
proof (cases "len (Issues p) = 0")
  case True
  then show ?thesis
    by (simp add: RankIssues_no_issues)
next
  case False
  then have issues: "0 < len (Issues p)"
    by simp
  from assms False consider
      (neither) "RankBeforeIssue p = ''''" "RankAfterIssue p = ''''"
    | (both) "RankBeforeIssue p \<noteq> ''''" "RankAfterIssue p \<noteq> ''''"
    by blast
  then show ?thesis
  proof cases
    case neither
    then show ?thesis
      by (simp add: RankIssues_no_reference [OF issues])
  next
    case both
    then show ?thesis
      by (simp add: RankIssues_both_references [OF issues])
  qed
qed

theorem C2_invalid_payload_no_request_witness:
  "snd (RankIssues (respond \<lparr>StatusCode = 204, Status = ''204 No Content'', Body = ''''\<rparr>)
          spec_formatUnexpectedResponse
          \<lparr>Issues = Some [''TEST-1''], RankBeforeIssue = ''TEST-2'', RankAfterIssue = ''TEST-3''\<rparr>) = []
   \<and> fst (RankIssues (respond \<lparr>StatusCode = 204, Status = ''204 No Content'', Body = ''''\<rparr>)
          spec_formatUnexpectedResponse
          \<lparr>Issues = Some [''TEST-1''], RankBeforeIssue = ''TEST-2'', RankAfterIssue = ''TEST-3''\<rparr>)
      = Some (Errorf ''rankBeforeIssue and rankAfterIssue cannot both be specified'')"
proof -
  let ?p = "\<lparr>Issues = Some [''TEST-1''], RankBeforeIssue = ''TEST-2'', RankAfterIssue = ''TEST-3''\<rparr>"
  have "RankBeforeIssue ?p \<noteq> '''' \<and> RankAfterIssue ?p \<noteq> ''''"
    by simp
  then have pre: "len (Issues ?p) = 0
      \<or> (RankBeforeIssue ?p = '''' \<and> RankAfterIssue ?p = '''')
      \<or> (RankBeforeIssue ?p \<noteq> '''' \<and> RankAfterIssue ?p \<noteq> '''')"
    by blast
  show ?thesis
    using C2_invalid_payload_no_request [OF pre,
        of "respond \<lparr>StatusCode = 204, Status = ''204 No Content'', Body = ''''\<rparr>"
           spec_formatUnexpectedResponse]
    by (simp add: RankIssues_both_references)
qed


section \<open>The request body\<close>

text \<open>
  C1, as the code has it: \<^verbatim>\<open>IssueRankPayload\<close> has two reference modes.  For every
  payload with issues in which exactly one of the before and after references is set,
  \<^verbatim>\<open>RankIssues\<close> returns none of the three validation errors and sends one request,
  whose body is the JSON object with \<^verbatim>\<open>issues\<close> and the field of that one reference
  and no other field.
\<close>

theorem C1_one_reference_is_sent:
  assumes "0 < len (Issues p)" and "(RankBeforeIssue p = '''') \<noteq> (RankAfterIssue p = '''')"
  shows \<open>fst (RankIssues transport f p) \<noteq> Some (Errorf ''no issues provided to rank'')
     \<and> fst (RankIssues transport f p)
         \<noteq> Some (Errorf ''either rankBeforeIssue or rankAfterIssue must be specified'')
     \<and> fst (RankIssues transport f p)
         \<noteq> Some (Errorf ''rankBeforeIssue and rankAfterIssue cannot both be specified'')
     \<and> snd (RankIssues transport f p) =
         [rankRequest
            (if RankBeforeIssue p \<noteq> ''''
             then ''{"issues":'' @ encodeSlice (Issues p)
                  @ '',"rankBeforeIssue":'' @ appendString (RankBeforeIssue p) @ ''}''
             else ''{"issues":'' @ encodeSlice (Issues p)
                  @ '',"rankAfterIssue":'' @ appendString (RankAfterIssue p) @ ''}'')]
     \<and> map fst (marshalFields p) =
         (if RankBeforeIssue p \<noteq> '''' then [''issues'', ''rankBeforeIssue'']
          else [''issues'', ''rankAfterIssue''])\<close>
proof (cases "RankBeforeIssue p = ''''")
  case True
  with assms(2) have a: "RankAfterIssue p \<noteq> ''''"
    by simp
  show ?thesis
    using RankIssues_valid_outcome [OF assms json_Marshal_after [OF True a], of transport f]
    by (simp add: True marshalFields_after [OF True a])
next
  case False
  with assms(2) have a: "RankAfterIssue p = ''''"
    by simp
  show ?thesis
    using RankIssues_valid_outcome [OF assms json_Marshal_before [OF False a], of transport f]
    by (simp add: False marshalFields_before [OF False a])
qed

theorem C1_one_reference_is_sent_witness:
  \<open>snd (RankIssues noResponse spec_formatUnexpectedResponse
          \<lparr>Issues = Some [''TEST-1'', ''TEST-3''], RankBeforeIssue = ''TEST-4'', RankAfterIssue = ''''\<rparr>)
     = [rankRequest ''{"issues":["TEST-1","TEST-3"],"rankBeforeIssue":"TEST-4"}'']
   \<and> map fst (marshalFields
          \<lparr>Issues = Some [''TEST-1'', ''TEST-3''], RankBeforeIssue = ''TEST-4'', RankAfterIssue = ''''\<rparr>)
     = [''issues'', ''rankBeforeIssue'']
   \<and> fst (RankIssues noResponse spec_formatUnexpectedResponse
          \<lparr>Issues = Some [''TEST-1'', ''TEST-3''], RankBeforeIssue = ''TEST-4'', RankAfterIssue = ''''\<rparr>)
     \<noteq> Some (Errorf ''either rankBeforeIssue or rankAfterIssue must be specified'')\<close>
proof -
  let ?p = "\<lparr>Issues = Some [''TEST-1'', ''TEST-3''], RankBeforeIssue = ''TEST-4'', RankAfterIssue = ''''\<rparr>"
  have v: "0 < len (Issues ?p)" "(RankBeforeIssue ?p = '''') \<noteq> (RankAfterIssue ?p = '''')"
    by simp_all
  show ?thesis
    using C1_one_reference_is_sent [OF v, of noResponse spec_formatUnexpectedResponse]
    by (simp add: appendString_def htmlSafeSet_def)
qed

text \<open>
  The claim as stated counts a third mode, first.  An instruction with issues and with
  the first mode alone set has one mode set, and the payload it gives
  \<^verbatim>\<open>RankIssues\<close> holds neither reference: it is refused with the error of the missing
  reference, and nothing is sent.
\<close>

theorem C1_counterexample:
  "target_issues
      \<lparr>target_issues = [''TEST-1''], rank_before = '''', rank_after = '''', rank_first = True\<rparr> \<noteq> []
   \<and> modesSet
      \<lparr>target_issues = [''TEST-1''], rank_before = '''', rank_after = '''', rank_first = True\<rparr> = 1
   \<and> RankIssues (respond \<lparr>StatusCode = 204, Status = ''204 No Content'', Body = ''''\<rparr>)
        spec_formatUnexpectedResponse
        (payloadOf
           \<lparr>target_issues = [''TEST-1''], rank_before = '''', rank_after = '''', rank_first = True\<rparr>)
      = (Some (Errorf ''either rankBeforeIssue or rankAfterIssue must be specified''), [])"
  by (simp add: modesSet_def payloadOf_def RankIssues_no_reference)

text \<open>
  C8: for the issues \<^verbatim>\<open>TEST-1\<close> to be ranked after \<^verbatim>\<open>TEST-2\<close>, the body sent is exactly
  \<^verbatim>\<open>{"issues":["TEST-1"],"rankAfterIssue":"TEST-2"}\<close>, in which \<^verbatim>\<open>rankBeforeIssue\<close> does
  not occur.  For every payload, a reference that is not set has no field in the encoding,
  and no field of the encoding has the empty string for its value.
\<close>

theorem C8_unset_reference_omitted:
  \<open>snd (RankIssues transport f
          \<lparr>Issues = Some [''TEST-1''], RankBeforeIssue = '''', RankAfterIssue = ''TEST-2''\<rparr>)
     = [rankRequest ''{"issues":["TEST-1"],"rankAfterIssue":"TEST-2"}'']
   \<and> \<not> Contains ''{"issues":["TEST-1"],"rankAfterIssue":"TEST-2"}'' ''rankBeforeIssue''
   \<and> (RankBeforeIssue p = '''' \<longrightarrow> ''rankBeforeIssue'' \<notin> fst ` set (marshalFields p))
   \<and> (RankAfterIssue p = '''' \<longrightarrow> ''rankAfterIssue'' \<notin> fst ` set (marshalFields p))
   \<and> (\<forall>kv \<in> set (marshalFields p). snd kv \<noteq> ''""'')\<close>
proof -
  let ?p = "\<lparr>Issues = Some [''TEST-1''], RankBeforeIssue = '''', RankAfterIssue = ''TEST-2''\<rparr>"
  have \<open>json_Marshal ?p = Inr ''{"issues":["TEST-1"],"rankAfterIssue":"TEST-2"}''\<close>
    by (simp add: json_Marshal_after appendString_def htmlSafeSet_def)
  from RankIssues_valid_outcome(1) [OF example_payload_valid this]
  have \<open>snd (RankIssues transport f ?p)
      = [rankRequest ''{"issues":["TEST-1"],"rankAfterIssue":"TEST-2"}'']\<close> .
  moreover have \<open>\<not> Contains ''{"issues":["TEST-1"],"rankAfterIssue":"TEST-2"}'' ''rankBeforeIssue''\<close>
    unfolding Contains_def by code_simp
  ultimately show ?thesis
    by (simp add: marshalFields_keys marshalFields_no_empty_string)
qed

theorem C8_unset_reference_omitted_witness:
  \<open>RankBeforeIssue \<lparr>Issues = Some [''TEST-1''], RankBeforeIssue = '''', RankAfterIssue = ''TEST-2''\<rparr> = ''''
   \<and> ''rankBeforeIssue'' \<notin> fst ` set (marshalFields
        \<lparr>Issues = Some [''TEST-1''], RankBeforeIssue = '''', RankAfterIssue = ''TEST-2''\<rparr>)
   \<and> RankAfterIssue \<lparr>Issues = Some [''TEST-1''], RankBeforeIssue = ''TEST-4'', RankAfterIssue = ''''\<rparr> = ''''
   \<and> ''rankAfterIssue'' \<notin> fst ` set (marshalFields
        \<lparr>Issues = Some [''TEST-1''], RankBeforeIssue = ''TEST-4'', RankAfterIssue = ''''\<rparr>)
   \<and> (''rankAfterIssue'', ''"TEST-2"'') \<in> set (marshalFields
        \<lparr>Issues = Some [''TEST-1''], RankBeforeIssue = '''', RankAfterIssue = ''TEST-2''\<rparr>)
   \<and> snd (''rankAfterIssue'', ''"TEST-2"'') \<noteq> ''""''\<close>
  using
    C8_unset_reference_omitted [of noResponse spec_formatUnexpectedResponse
      "\<lparr>Issues = Some [''TEST-1''], RankBeforeIssue = '''', RankAfterIssue = ''TEST-2''\<rparr>"]
    C8_unset_reference_omitted [of noResponse spec_formatUnexpectedResponse
      "\<lparr>Issues = Some [''TEST-1''], RankBeforeIssue = ''TEST-4'', RankAfterIssue = ''''\<rparr>"]
  by (simp add: marshalFields_def appendString_def htmlSafeSet_def)

text \<open>
  C10: a reference is set when it differs from the empty string.  For every payload with
  issues whose before reference is one space and whose after reference is empty, no
  validation error is returned and the body sent has the field \<^verbatim>\<open>rankBeforeIssue\<close> with
  the value \<^verbatim>\<open>" "\<close>.  For every payload, a reference has its field in the encoding
  exactly when it is not the empty string.
\<close>

theorem C10_reference_set_unless_empty:
  assumes "0 < len (Issues p)" and "RankBeforeIssue p = '' ''" and "RankAfterIssue p = ''''"
  shows \<open>snd (RankIssues transport f p)
       = [rankRequest (''{"issues":'' @ encodeSlice (Issues p) @ '',"rankBeforeIssue":" "}'')]
     \<and> fst (RankIssues transport f p) \<noteq> Some (Errorf ''no issues provided to rank'')
     \<and> fst (RankIssues transport f p)
         \<noteq> Some (Errorf ''either rankBeforeIssue or rankAfterIssue must be specified'')
     \<and> fst (RankIssues transport f p)
         \<noteq> Some (Errorf ''rankBeforeIssue and rankAfterIssue cannot both be specified'')
     \<and> marshalFields p
       = [(''issues'', encodeSlice (Issues p)), (''rankBeforeIssue'', ''" "'')]
     \<and> (\<forall>q. (''rankBeforeIssue'' \<in> fst ` set (marshalFields q)) = (RankBeforeIssue q \<noteq> ''''))
     \<and> (\<forall>q. (''rankAfterIssue'' \<in> fst ` set (marshalFields q)) = (RankAfterIssue q \<noteq> ''''))\<close>
proof -
  have b: "RankBeforeIssue p \<noteq> ''''" and v: "(RankBeforeIssue p = '''') \<noteq> (RankAfterIssue p = '''')"
    using assms by simp_all
  have s: \<open>appendString (RankBeforeIssue p) = ''" "''\<close>
    by (simp add: assms(2) appendString_def htmlSafeSet_def)
  have m: \<open>json_Marshal p
      = Inr (''{"issues":'' @ encodeSlice (Issues p) @ '',"rankBeforeIssue":" "}'')\<close>
    using json_Marshal_before [OF b assms(3)] by (simp add: s)
  show ?thesis
    using RankIssues_valid_outcome [OF assms(1) v m, of transport f]
      marshalFields_before [OF b assms(3)]
    by (simp add: s marshalFields_keys)
qed

theorem C10_reference_set_unless_empty_witness:
  \<open>snd (RankIssues noResponse spec_formatUnexpectedResponse
          \<lparr>Issues = Some [''TEST-1''], RankBeforeIssue = '' '', RankAfterIssue = ''''\<rparr>)
     = [rankRequest ''{"issues":["TEST-1"],"rankBeforeIssue":" "}'']
   \<and> marshalFields \<lparr>Issues = Some [''TEST-1''], RankBeforeIssue = '' '', RankAfterIssue = ''''\<rparr>
     = [(''issues'', ''["TEST-1"]''), (''rankBeforeIssue'', ''" "'')]\<close>
proof -
  let ?p = "\<lparr>Issues = Some [''TEST-1''], RankBeforeIssue = '' '', RankAfterIssue = ''''\<rparr>"
  have v: "0 < len (Issues ?p)" "RankBeforeIssue ?p = '' ''" "RankAfterIssue ?p = ''''"
    by simp_all
  show ?thesis
    using C10_reference_set_unless_empty [OF v, of noResponse spec_formatUnexpectedResponse]
    by (simp add: appendString_def htmlSafeSet_def)
qed


section \<open>The response\<close>

text \<open>
  C3: for a payload that passes validation, a response with status code 204 makes
  \<^verbatim>\<open>RankIssues\<close> return \<^verbatim>\<open>nil\<close>, whatever the body of the response (and its status line)
  holds.
\<close>

theorem C3_no_content_is_success:
  assumes "0 < len (Issues p)" and "(RankBeforeIssue p = '''') \<noteq> (RankAfterIssue p = '''')"
    and "\<And>req. transport req = (Some res, None)" and "StatusCode res = 204"
  shows "fst (RankIssues transport f p) = None"
  using RankIssues_response [OF assms(1,2,3), where f = f] assms(4)
  by simp

theorem C3_no_content_is_success_witness:
  "StatusCode \<lparr>StatusCode = 204, Status = ''204 No Content'', Body = ''not empty''\<rparr> = 204
   \<and> fst (RankIssues
        (respond \<lparr>StatusCode = 204, Status = ''204 No Content'', Body = ''not empty''\<rparr>)
        spec_formatUnexpectedResponse
        \<lparr>Issues = Some [''TEST-1''], RankBeforeIssue = '''', RankAfterIssue = ''TEST-2''\<rparr>) = None"
  using C3_no_content_is_success [OF example_payload_valid,
      where transport = "respond \<lparr>StatusCode = 204, Status = ''204 No Content'', Body = ''not empty''\<rparr>"
        and res = "\<lparr>StatusCode = 204, Status = ''204 No Content'', Body = ''not empty''\<rparr>"
        and f = spec_formatUnexpectedResponse]
  by (simp add: respond_def)

text \<open>
  C4, as the code has it: for a payload that passes validation, a response with status
  code 207 makes \<^verbatim>\<open>RankIssues\<close> return the multi-status error, whose message is the
  fixed text followed by the status line of the response as it was received
  (\<^verbatim>\<open>res.Status\<close>).  The message contains \<^verbatim>\<open>207 Multi-Status\<close> when that status line
  does.  The body is not read: with any other body, and any other
  \<^verbatim>\<open>formatUnexpectedResponse\<close>, the result is the same.
\<close>

theorem C4_multi_status_reports_status_line:
  assumes "0 < len (Issues p)" and "(RankBeforeIssue p = '''') \<noteq> (RankAfterIssue p = '''')"
    and "\<And>req. transport req = (Some res, None)" and "StatusCode res = 207"
  shows "fst (RankIssues transport f p)
           = Some (Errorf (''rank issues operation resulted in multi-status (some may have failed): ''
                           @ Status res))
         \<and> (Contains (Status res) ''207 Multi-Status'' \<longrightarrow>
              Contains (''rank issues operation resulted in multi-status (some may have failed): ''
                        @ Status res) ''207 Multi-Status'')
         \<and> (\<forall>b g. fst (RankIssues (respond (res\<lparr>Body := b\<rparr>)) g p)
                  = fst (RankIssues transport f p))"
proof (intro conjI impI allI)
  show here: "fst (RankIssues transport f p)
      = Some (Errorf (''rank issues operation resulted in multi-status (some may have failed): ''
                      @ Status res))"
    using RankIssues_response [OF assms(1,2,3), where f = f] assms(4) by simp
  show "fst (RankIssues (respond (res\<lparr>Body := b\<rparr>)) g p) = fst (RankIssues transport f p)"
    for b g
    unfolding here
    using RankIssues_response [of p "respond (res\<lparr>Body := b\<rparr>)" "res\<lparr>Body := b\<rparr>" g,
        OF assms(1,2)] assms(4)
    by (simp add: respond_def)
next
  assume "Contains (Status res) ''207 Multi-Status''"
  from Contains_appendI [OF this,
      of "''rank issues operation resulted in multi-status (some may have failed): ''" "[]"]
  show "Contains (''rank issues operation resulted in multi-status (some may have failed): ''
                  @ Status res) ''207 Multi-Status''"
    by simp
qed

theorem C4_multi_status_reports_status_line_witness:
  "StatusCode \<lparr>StatusCode = 207, Status = ''207 Multi-Status'', Body = ''Multi-status response body''\<rparr> = 207
   \<and> fst (RankIssues
        (respond \<lparr>StatusCode = 207, Status = ''207 Multi-Status'', Body = ''Multi-status response body''\<rparr>)
        spec_formatUnexpectedResponse
        \<lparr>Issues = Some [''TEST-1''], RankBeforeIssue = '''', RankAfterIssue = ''TEST-2''\<rparr>)
      = Some (Errorf ''rank issues operation resulted in multi-status (some may have failed): 207 Multi-Status'')
   \<and> Contains ''rank issues operation resulted in multi-status (some may have failed): 207 Multi-Status''
        ''207 Multi-Status''"
proof -
  let ?res = "\<lparr>StatusCode = 207, Status = ''207 Multi-Status'', Body = ''Multi-status response body''\<rparr>"
  have s: "Contains (Status ?res) ''207 Multi-Status''"
    by (simp add: Contains_def)
  show ?thesis
    using C4_multi_status_reports_status_line [OF example_payload_valid,
        where transport = "respond ?res" and res = ?res and f = spec_formatUnexpectedResponse] s
    by (simp add: respond_def)
qed

text \<open>
  The claim as stated, with the literal \<^verbatim>\<open>207 Multi-Status\<close> for every response of
  status code 207, fails for a response whose status line has no reason phrase: the
  message ends with the status line received.
\<close>

theorem C4_counterexample:
  "StatusCode \<lparr>StatusCode = 207, Status = ''207 '', Body = ''''\<rparr> = 207
   \<and> fst (RankIssues (respond \<lparr>StatusCode = 207, Status = ''207 '', Body = ''''\<rparr>)
        spec_formatUnexpectedResponse
        \<lparr>Issues = Some [''TEST-1''], RankBeforeIssue = '''', RankAfterIssue = ''TEST-2''\<rparr>)
      = Some (Errorf ''rank issues operation resulted in multi-status (some may have failed): 207 '')
   \<and> \<not> Contains ''rank issues operation resulted in multi-status (some may have failed): 207 ''
          ''207 Multi-Status''"
proof -
  have "\<not> Contains ''rank issues operation resulted in multi-status (some may have failed): 207 ''
          ''207 Multi-Status''"
    unfolding Contains_def by code_simp
  then show ?thesis
    using RankIssues_response [OF example_payload_valid,
        where transport = "respond \<lparr>StatusCode = 207, Status = ''207 '', Body = ''''\<rparr>"
          and res = "\<lparr>StatusCode = 207, Status = ''207 '', Body = ''''\<rparr>"
          and f = spec_formatUnexpectedResponse]
    by (simp add: respond_def)
qed

text \<open>
  C6: for a payload that passes validation, a transport that returns neither a response
  nor an error makes \<^verbatim>\<open>RankIssues\<close> return \<^verbatim>\<open>ErrEmptyResponse\<close>; a response with
  status code 200 and an empty body gives the failure \<^verbatim>\<open>formatUnexpectedResponse\<close>
  builds from it, which is not \<^verbatim>\<open>ErrEmptyResponse\<close>.
\<close>

theorem C6_empty_response_is_distinct:
  assumes "0 < len (Issues p)" and "(RankBeforeIssue p = '''') \<noteq> (RankAfterIssue p = '''')"
  shows "((\<forall>req. transport req = (None, None)) \<longrightarrow>
            fst (RankIssues transport f p) = Some ErrEmptyResponse)
         \<and> ((\<forall>req. transport req = (Some res, None)) \<and> StatusCode res = 200 \<and> Body res = '''' \<longrightarrow>
              fst (RankIssues transport f p) = Some (ErrUnexpectedResponse (f res))
              \<and> fst (RankIssues transport f p) \<noteq> Some ErrEmptyResponse)"
proof (intro conjI impI)
  assume "\<forall>req. transport req = (None, None)"
  then show "fst (RankIssues transport f p) = Some ErrEmptyResponse"
    using RankIssues_sends [OF assms json_Marshal_Inr, where transport = transport and f = f] by simp
next
  assume r: "(\<forall>req. transport req = (Some res, None)) \<and> StatusCode res = 200 \<and> Body res = ''''"
  then have t: "transport req = (Some res, None)" for req
    by simp
  show u: "fst (RankIssues transport f p) = Some (ErrUnexpectedResponse (f res))"
    using RankIssues_response [of p transport res f, OF assms t] r by simp
  show "fst (RankIssues transport f p) \<noteq> Some ErrEmptyResponse"
    by (simp add: u)
qed

theorem C6_empty_response_is_distinct_witness:
  "fst (RankIssues noResponse spec_formatUnexpectedResponse
        \<lparr>Issues = Some [''TEST-1''], RankBeforeIssue = '''', RankAfterIssue = ''TEST-2''\<rparr>)
     = Some ErrEmptyResponse
   \<and> fst (RankIssues (respond \<lparr>StatusCode = 200, Status = ''200 OK'', Body = ''''\<rparr>)
        spec_formatUnexpectedResponse
        \<lparr>Issues = Some [''TEST-1''], RankBeforeIssue = '''', RankAfterIssue = ''TEST-2''\<rparr>)
     = Some (ErrUnexpectedResponse
          (spec_formatUnexpectedResponse \<lparr>StatusCode = 200, Status = ''200 OK'', Body = ''''\<rparr>))
   \<and> fst (RankIssues (respond \<lparr>StatusCode = 200, Status = ''200 OK'', Body = ''''\<rparr>)
        spec_formatUnexpectedResponse
        \<lparr>Issues = Some [''TEST-1''], RankBeforeIssue = '''', RankAfterIssue = ''TEST-2''\<rparr>)
     \<noteq> Some ErrEmptyResponse"
  using
    C6_empty_response_is_distinct [OF example_payload_valid,
      where transport = noResponse and f = spec_formatUnexpectedResponse]
    C6_empty_response_is_distinct [OF example_payload_valid,
      where transport = "respond \<lparr>StatusCode = 200, Status = ''200 OK'', Body = ''''\<rparr>"
        and res = "\<lparr>StatusCode = 200, Status = ''200 OK'', Body = ''''\<rparr>"
        and f = spec_formatUnexpectedResponse]
  by (simp add: respond_def noResponse_def)


section \<open>Unexpected responses\<close>










end
